theory Spec2Isabelle
  imports Main "HOL-Library.Sublist"
begin

section \<open>Values exchanged with the backend\<close>

text \<open>
  The client is JavaScript: the payloads it receives are JSON values, and reading a
  property of \<open>undefined\<close> or \<open>null\<close> throws a TypeError. Numbers are carried but never
  interpreted by the code under study. An object is the list of its own properties
  (keys distinct, as a parsed JSON object has them).
\<close>

datatype json =
    JUndefined
  | JNull
  | JBool bool
  | JNum int
  | JString string
  | JArray "json list"
  | JObject "(string \<times> json) list"

datatype js_error = TypeError

text \<open>
  \<open>v.k\<close> for a key that is not a built-in member (\<open>msg\<close>, \<open>taskList\<close>, \<open>id\<close>): an own
  property of an object, \<open>undefined\<close> on any other non-nullish value, a TypeError on
  \<open>undefined\<close> and \<open>null\<close>.
\<close>

fun get_prop :: "json \<Rightarrow> string \<Rightarrow> js_error + json" where
  "get_prop JUndefined k = Inl TypeError"
| "get_prop JNull k = Inl TypeError"
| "get_prop (JObject kvs) k = Inr (case map_of kvs k of None \<Rightarrow> JUndefined | Some v \<Rightarrow> v)"
| "get_prop v k = Inr JUndefined"

text \<open>The Task of the backend contract: \<open>{ id, title, isDone }\<close>.\<close>

record task =
  task_id :: string
  title :: string
  isDone :: bool

section \<open>The HTTP client wrapper\<close>

datatype http_method = GET | POST | PATCH | DELETE

record request =
  verb :: http_method
  path :: string
  body :: "json option"

record axios_response =
  resp_status :: nat
  resp_data :: json

text \<open>
  The error a rejected request carries: \<open>error.response\<close> is the server's response when
  there was one, and absent (\<open>None\<close>) for a transport-level failure.
\<close>

record axios_error =
  response :: "axios_response option"

type_synonym reply = "axios_error + axios_response"

text \<open>
  Modelled from the spec: \<open>utils.js\<close>, which creates the axios instance \<open>customFetch\<close> with
  the base address of the task collection, is not among the sources. The four verbs
  build a request against a relative path; the instance resolves on a 2xx status and
  rejects otherwise, with the response attached to the error when the server answered.
\<close>

definition customFetch_get :: "string \<Rightarrow> request" where
  "customFetch_get p = \<lparr>verb = GET, path = p, body = None\<rparr>"

definition customFetch_post :: "string \<Rightarrow> json \<Rightarrow> request" where
  "customFetch_post p b = \<lparr>verb = POST, path = p, body = Some b\<rparr>"

definition customFetch_patch :: "string \<Rightarrow> json \<Rightarrow> request" where
  "customFetch_patch p b = \<lparr>verb = PATCH, path = p, body = Some b\<rparr>"

definition customFetch_delete :: "string \<Rightarrow> request" where
  "customFetch_delete p = \<lparr>verb = DELETE, path = p, body = None\<rparr>"

datatype server_outcome = Responded axios_response | NoResponse

definition customFetch_settle :: "server_outcome \<Rightarrow> reply" where
  "customFetch_settle out =
     (case out of
        NoResponse \<Rightarrow> Inl \<lparr>response = None\<rparr>
      | Responded r \<Rightarrow>
          (if 200 \<le> resp_status r \<and> resp_status r < 300 then Inr r
           else Inl \<lparr>response = Some r\<rparr>))"

section \<open>Client state: the query cache, the toasts, the requests sent\<close>

datatype toast = ToastSuccess json | ToastError json

datatype query_status = QLoading | QError | QSuccess

record cache_entry =
  q_status :: query_status
  q_data :: json
  isInvalidated :: bool

type_synonym query_key = "string list"

record app_state =
  cache :: "(query_key \<times> cache_entry) list"
  toasts :: "toast list"
  sent :: "request list"

definition toast_success :: "json \<Rightarrow> app_state \<Rightarrow> app_state" where
  "toast_success m st = st\<lparr>toasts := toasts st @ [ToastSuccess m]\<rparr>"

definition toast_error :: "json \<Rightarrow> app_state \<Rightarrow> app_state" where
  "toast_error m st = st\<lparr>toasts := toasts st @ [ToastError m]\<rparr>"

text \<open>
  \<open>queryClient.invalidateQueries({ queryKey })\<close> of the query library: every cached query
  whose key starts with \<open>queryKey\<close> is flagged invalidated, which makes the library fetch
  it again; the cached data is not written.
\<close>

definition invalidate_entry :: "query_key \<Rightarrow> query_key \<times> cache_entry \<Rightarrow> query_key \<times> cache_entry" where
  "invalidate_entry key kv =
     (if prefix key (fst kv) then (fst kv, (snd kv)\<lparr>isInvalidated := True\<rparr>) else kv)"

definition invalidateQueries :: "query_key \<Rightarrow> app_state \<Rightarrow> app_state" where
  "invalidateQueries key st = st\<lparr>cache := map (invalidate_entry key) (cache st)\<rparr>"

text \<open>What the cache holds under a key, and the data alone.\<close>

definition cached :: "app_state \<Rightarrow> query_key \<Rightarrow> cache_entry option" where
  "cached st key = map_of (cache st) key"

definition cached_data :: "app_state \<Rightarrow> query_key \<Rightarrow> json option" where
  "cached_data st key = map_option q_data (cached st key)"

text \<open>
  The library settling a query with the outcome of its query function: a result is
  stored as the data of a fresh, successful entry; a failure puts the entry in the error
  status and keeps the data it had. The outcome is the one the library settles with
  (its own retries are the library's, and not counted here).
\<close>

fun store :: "query_key \<Rightarrow> cache_entry \<Rightarrow> (query_key \<times> cache_entry) list \<Rightarrow> (query_key \<times> cache_entry) list" where
  "store key e [] = [(key, e)]"
| "store key e (kv # kvs) = (if fst kv = key then (key, e) # kvs else kv # store key e kvs)"

definition query_settle :: "query_key \<Rightarrow> axios_error + json \<Rightarrow> app_state \<Rightarrow> app_state" where
  "query_settle key res st =
     (case res of
        Inr d \<Rightarrow>
          st\<lparr>cache := store key \<lparr>q_status = QSuccess, q_data = d, isInvalidated = False\<rparr> (cache st)\<rparr>
      | Inl err \<Rightarrow>
          (case cached st key of
             None \<Rightarrow>
               st\<lparr>cache := store key
                     \<lparr>q_status = QError, q_data = JUndefined, isInvalidated = False\<rparr> (cache st)\<rparr>
           | Some e \<Rightarrow> st\<lparr>cache := store key (e\<lparr>q_status := QError\<rparr>) (cache st)\<rparr>))"

section \<open>The list operation: useFetchTasks\<close>

record fetch_result =
  isLoading :: bool
  data :: json
  isError :: bool

text \<open>
  \<open>useQuery\<close> as the component sees it: a query with no entry yet is loading and has no
  data; otherwise the flags are read off the entry's status.
\<close>

definition useQuery :: "query_key \<Rightarrow> app_state \<Rightarrow> fetch_result" where
  "useQuery key st =
     (case cached st key of
        None \<Rightarrow> \<lparr>isLoading = True, data = JUndefined, isError = False\<rparr>
      | Some e \<Rightarrow>
          \<lparr>isLoading = (q_status e = QLoading), data = q_data e, isError = (q_status e = QError)\<rparr>)"

text \<open>
  \<open>queryFn: async () => { const { data } = await customFetch.get('/'); return data }\<close>
\<close>

definition fetchTasks_request :: request where
  "fetchTasks_request = customFetch_get ''/''"

definition fetchTasks_queryFn :: "reply \<Rightarrow> axios_error + json" where
  "fetchTasks_queryFn rep = (case rep of Inl err \<Rightarrow> Inl err | Inr r \<Rightarrow> Inr (resp_data r))"

definition fetchTasks_settle :: "reply \<Rightarrow> app_state \<Rightarrow> app_state" where
  "fetchTasks_settle rep st = query_settle [''tasks''] (fetchTasks_queryFn rep) st"

definition useFetchTasks :: "app_state \<Rightarrow> fetch_result" where
  "useFetchTasks st =
     (let r = useQuery [''tasks''] st
      in \<lparr>isLoading = isLoading r, data = data r, isError = isError r\<rparr>)"

text \<open>
  The refetch that follows an invalidation. The library fetches a query again when its
  entry is flagged invalidated: for the task list that is one more GET of the collection,
  settled with its reply, which replaces the cached list and clears the flag. An entry
  that is not flagged, or a key with no entry, is left as it is. Until the reply
  arrives the component goes on reading the list that was cached.
\<close>

definition refetchTasks :: "reply \<Rightarrow> app_state \<Rightarrow> app_state" where
  "refetchTasks rep st =
     (case cached st [''tasks''] of
        None \<Rightarrow> st
      | Some e \<Rightarrow>
          (if isInvalidated e
           then fetchTasks_settle rep (st\<lparr>sent := sent st @ [fetchTasks_request]\<rparr>)
           else st))"

section \<open>The mutations: useCreateTask, useEditTask, useDeleteTask\<close>

text \<open>
  A callback either returns, or throws with the state as it was at the throw.
\<close>

datatype handler_result = Done app_state | Threw js_error app_state

fun state_of :: "handler_result \<Rightarrow> app_state" where
  "state_of (Done st) = st"
| "state_of (Threw e st) = st"

fun thrown :: "handler_result \<Rightarrow> js_error option" where
  "thrown (Done st) = None"
| "thrown (Threw e st) = Some e"

datatype mutation_status = MIdle | MLoading | MError | MSuccess

text \<open>
  \<open>useMutation\<close> of the query library, in two steps. Calling \<open>mutate(variables)\<close> sends
  the request of \<open>mutationFn\<close> once and puts the mutation in the loading status. When the
  reply arrives the mutation settles: \<open>onSuccess\<close> runs on a resolved request and
  \<open>onError\<close>, with the error, on a rejected one.
\<close>

definition mutate_dispatch :: "request \<Rightarrow> mutation_status \<times> app_state \<Rightarrow> mutation_status \<times> app_state" where
  "mutate_dispatch req ms = (MLoading, (snd ms)\<lparr>sent := sent (snd ms) @ [req]\<rparr>)"

definition mutate_settle ::
  "(app_state \<Rightarrow> app_state) \<Rightarrow> (axios_error \<Rightarrow> app_state \<Rightarrow> handler_result) \<Rightarrow> reply \<Rightarrow>
   mutation_status \<times> app_state \<Rightarrow> mutation_status \<times> handler_result" where
  "mutate_settle onSuccess onError rep ms =
     (case rep of
        Inr r \<Rightarrow> (MSuccess, Done (onSuccess (snd ms)))
      | Inl err \<Rightarrow> (MError, onError err (snd ms)))"

text \<open>The expression \<open>error.response.data.msg\<close> of the three error callbacks.\<close>

definition error_response_data_msg :: "axios_error \<Rightarrow> js_error + json" where
  "error_response_data_msg err =
     (case response err of
        None \<Rightarrow> Inl TypeError
      | Some r \<Rightarrow> get_prop (resp_data r) ''msg'')"

subsection \<open>useCreateTask\<close>

definition task_added :: string where
  "task_added = ''Task added '' @ [CHR 0xE2, CHR 0x9C, CHR 0x85]"

definition createTask_mutationFn :: "string \<Rightarrow> request" where
  "createTask_mutationFn taskTitle = customFetch_post ''/'' (JObject [(''title'', JString taskTitle)])"

definition createTask_onSuccess :: "app_state \<Rightarrow> app_state" where
  "createTask_onSuccess st = toast_success (JString task_added) (invalidateQueries [''tasks''] st)"

definition createTask_onError :: "axios_error \<Rightarrow> app_state \<Rightarrow> handler_result" where
  "createTask_onError err st =
     (case error_response_data_msg err of
        Inl e \<Rightarrow> Threw e st
      | Inr m \<Rightarrow> Done (toast_error m st))"

definition createTask_dispatch :: "string \<Rightarrow> mutation_status \<times> app_state \<Rightarrow> mutation_status \<times> app_state" where
  "createTask_dispatch taskTitle ms = mutate_dispatch (createTask_mutationFn taskTitle) ms"

definition createTask_settle :: "reply \<Rightarrow> mutation_status \<times> app_state \<Rightarrow> mutation_status \<times> handler_result" where
  "createTask_settle rep ms = mutate_settle createTask_onSuccess createTask_onError rep ms"

definition createTask_run :: "string \<Rightarrow> reply \<Rightarrow> app_state \<Rightarrow> handler_result" where
  "createTask_run taskTitle rep st =
     snd (createTask_settle rep (createTask_dispatch taskTitle (MIdle, st)))"

subsection \<open>useEditTask\<close>

definition editTask_mutationFn :: "string \<Rightarrow> bool \<Rightarrow> request" where
  "editTask_mutationFn taskId done =
     customFetch_patch (''/'' @ taskId) (JObject [(''isDone'', JBool done)])"

definition editTask_onSuccess :: "app_state \<Rightarrow> app_state" where
  "editTask_onSuccess st = invalidateQueries [''tasks''] st"

definition editTask_onError :: "axios_error \<Rightarrow> app_state \<Rightarrow> handler_result" where
  "editTask_onError err st =
     (case error_response_data_msg err of
        Inl e \<Rightarrow> Threw e st
      | Inr m \<Rightarrow> Done (toast_error m st))"

definition editTask_dispatch :: "string \<Rightarrow> bool \<Rightarrow> mutation_status \<times> app_state \<Rightarrow> mutation_status \<times> app_state" where
  "editTask_dispatch taskId done ms = mutate_dispatch (editTask_mutationFn taskId done) ms"

definition editTask_settle :: "reply \<Rightarrow> mutation_status \<times> app_state \<Rightarrow> mutation_status \<times> handler_result" where
  "editTask_settle rep ms = mutate_settle editTask_onSuccess editTask_onError rep ms"

definition editTask_run :: "string \<Rightarrow> bool \<Rightarrow> reply \<Rightarrow> app_state \<Rightarrow> handler_result" where
  "editTask_run taskId done rep st =
     snd (editTask_settle rep (editTask_dispatch taskId done (MIdle, st)))"

subsection \<open>useDeleteTask\<close>

definition deleteTask_mutationFn :: "string \<Rightarrow> request" where
  "deleteTask_mutationFn taskId = customFetch_delete (''/'' @ taskId)"

definition deleteTask_onSuccess :: "app_state \<Rightarrow> app_state" where
  "deleteTask_onSuccess st = invalidateQueries [''tasks''] st"

definition deleteTask_onError :: "axios_error \<Rightarrow> app_state \<Rightarrow> handler_result" where
  "deleteTask_onError err st =
     (case error_response_data_msg err of
        Inl e \<Rightarrow> Threw e st
      | Inr m \<Rightarrow> Done (toast_error m st))"

definition deleteTask_dispatch :: "string \<Rightarrow> mutation_status \<times> app_state \<Rightarrow> mutation_status \<times> app_state" where
  "deleteTask_dispatch taskId ms = mutate_dispatch (deleteTask_mutationFn taskId) ms"

definition deleteTask_settle :: "reply \<Rightarrow> mutation_status \<times> app_state \<Rightarrow> mutation_status \<times> handler_result" where
  "deleteTask_settle rep ms = mutate_settle deleteTask_onSuccess deleteTask_onError rep ms"

definition deleteTask_run :: "string \<Rightarrow> reply \<Rightarrow> app_state \<Rightarrow> handler_result" where
  "deleteTask_run taskId rep st =
     snd (deleteTask_settle rep (deleteTask_dispatch taskId (MIdle, st)))"

subsection \<open>What the three hooks return\<close>

text \<open>
  \<open>return { createTask, createTaskLoading }\<close>, \<open>return { editTask }\<close> and
  \<open>return { deleteTask, deleteTaskLoading }\<close>: the \<open>mutate\<close> function under its new name
  and, for two of the hooks, the \<open>isLoading\<close> flag of the mutation.
\<close>

record useCreateTask_result =
  createTask :: "string \<Rightarrow> mutation_status \<times> app_state \<Rightarrow> mutation_status \<times> app_state"
  createTaskLoading :: bool

record useEditTask_result =
  editTask :: "string \<Rightarrow> bool \<Rightarrow> mutation_status \<times> app_state \<Rightarrow> mutation_status \<times> app_state"

record useDeleteTask_result =
  deleteTask :: "string \<Rightarrow> mutation_status \<times> app_state \<Rightarrow> mutation_status \<times> app_state"
  deleteTaskLoading :: bool

definition useCreateTask :: "mutation_status \<Rightarrow> useCreateTask_result" where
  "useCreateTask ms = \<lparr>createTask = createTask_dispatch, createTaskLoading = (ms = MLoading)\<rparr>"

definition useEditTask :: "mutation_status \<Rightarrow> useEditTask_result" where
  "useEditTask ms = \<lparr>editTask = editTask_dispatch\<rparr>"

definition useDeleteTask :: "mutation_status \<Rightarrow> useDeleteTask_result" where
  "useDeleteTask ms = \<lparr>deleteTask = deleteTask_dispatch, deleteTaskLoading = (ms = MLoading)\<rparr>"

section \<open>The components\<close>

subsection \<open>SingleItem\<close>

text \<open>
  What \<open>SingleItem\<close> renders for a Task, given the status of its own delete mutation and
  of its own edit mutation: the checkbox with its change handler, the title with its
  decoration (\<open>item.isDone && 'line-through'\<close>), the delete button with its click handler
  and its \<open>disabled\<close> attribute.
\<close>

record rendered_item =
  checked :: bool
  onChange :: "mutation_status \<times> app_state \<Rightarrow> mutation_status \<times> app_state"
  textDecoration :: "string option"
  title_text :: string
  onClick :: "mutation_status \<times> app_state \<Rightarrow> mutation_status \<times> app_state"
  disabled :: bool

definition SingleItem :: "task \<Rightarrow> mutation_status \<Rightarrow> mutation_status \<Rightarrow> rendered_item" where
  "SingleItem item delete_ms edit_ms =
     (let d = useDeleteTask delete_ms;
          e = useEditTask edit_ms
      in \<lparr>checked = isDone item,
          onChange = editTask e (task_id item) (\<not> isDone item),
          textDecoration = (if isDone item then Some ''line-through'' else None),
          title_text = title item,
          onClick = deleteTask d (task_id item),
          disabled = deleteTaskLoading d\<rparr>)"

text \<open>
  The browser delivers no click to a disabled button. A click on the delete button of
  an item acts on the pair of the item's delete mutation status and the client state;
  the item is rendered from that status.
\<close>

definition click_delete :: "task \<Rightarrow> mutation_status \<Rightarrow> mutation_status \<times> app_state \<Rightarrow> mutation_status \<times> app_state" where
  "click_delete item edit_ms s =
     (let r = SingleItem item (fst s) edit_ms
      in if disabled r then s else onClick r s)"

definition change_checkbox :: "task \<Rightarrow> mutation_status \<Rightarrow> mutation_status \<times> app_state \<Rightarrow> mutation_status \<times> app_state" where
  "change_checkbox item delete_ms s = onChange (SingleItem item delete_ms (fst s)) s"

subsection \<open>Items\<close>

datatype element =
    P string
  | ItemsDiv "element list"
  | SingleItemEl json json

definition items_error_text :: string where
  "items_error_text =
     ''There was an error Skyy! '' @ [CHR 0xE2, CHR 0x9A, CHR 0xA0, CHR 0xEF, CHR 0xB8, CHR 0x8F] @ ''..''"

text \<open>
  \<open>data.taskList.map((item) => <SingleItem key={item.id} item={item} />)\<close>: the key of
  each child is read off the item, which throws on an item that is \<open>undefined\<close> or \<open>null\<close>.
\<close>

fun map_items :: "json list \<Rightarrow> js_error + element list" where
  "map_items [] = Inr []"
| "map_items (item # items) =
     (case get_prop item ''id'' of
        Inl e \<Rightarrow> Inl e
      | Inr k \<Rightarrow>
          (case map_items items of
             Inl e \<Rightarrow> Inl e
           | Inr es \<Rightarrow> Inr (SingleItemEl k item # es)))"

text \<open>
  \<open>Items\<close> on the result of \<open>useFetchTasks\<close>. \<open>data.taskList\<close> throws when \<open>data\<close> is
  \<open>undefined\<close> or \<open>null\<close>, and \<open>.map\<close> throws on anything but an array.
\<close>

definition Items_render :: "fetch_result \<Rightarrow> js_error + element" where
  "Items_render r =
     (if isLoading r then Inr (P ''Loading...'')
      else if isError r then Inr (P items_error_text)
      else
        (case get_prop (data r) ''taskList'' of
           Inl e \<Rightarrow> Inl e
         | Inr taskList \<Rightarrow>
             (case taskList of
                JArray items \<Rightarrow>
                  (case map_items items of
                     Inl e \<Rightarrow> Inl e
                   | Inr es \<Rightarrow> Inr (ItemsDiv es))
              | _ \<Rightarrow> Inl TypeError)))"

definition Items :: "app_state \<Rightarrow> js_error + element" where
  "Items st = Items_render (useFetchTasks st)"

text \<open>The shape \<open>{ taskList: Task[] }\<close> of a payload, as a check on a JSON value.\<close>

fun is_task :: "json \<Rightarrow> bool" where
  "is_task (JObject kvs) =
     (case (map_of kvs ''id'', map_of kvs ''title'', map_of kvs ''isDone'') of
        (Some (JString i), Some (JString t), Some (JBool b)) \<Rightarrow> True
      | _ \<Rightarrow> False)"
| "is_task v = False"

definition is_taskList_payload :: "json \<Rightarrow> bool" where
  "is_taskList_payload d =
     (case d of
        JObject kvs \<Rightarrow>
          (case map_of kvs ''taskList'' of
             Some (JArray items) \<Rightarrow> list_all is_task items
           | _ \<Rightarrow> False)
      | _ \<Rightarrow> False)"


subsection \<open>The events of the interface\<close>

text \<open>
  Modelled from the spec: \<open>Form.jsx\<close> and \<open>App.jsx\<close> are not among the sources. The
  README lists both: the form has one handler, \<open>handleSubmit\<close>, which calls
  \<open>createTask(newItemName)\<close> with the text typed so far, and the application renders the
  toast container, the form and \<open>Items\<close>, with no handler of its own.
\<close>

definition Form_handleSubmit :: "string \<Rightarrow> mutation_status \<times> app_state \<Rightarrow> mutation_status \<times> app_state" where
  "Form_handleSubmit newItemName s = createTask (useCreateTask (fst s)) newItemName s"

text \<open>
  Every handler the components install: the submit of the form, and for an item the
  change of its checkbox and the click on its delete button. An event acts on the
  status of the mutation it triggers, paired with the client state; for an item the
  status of its other mutation is passed along.
\<close>

datatype ui_event = SubmitForm string | ChangeCheckbox task | ClickDelete task

definition handle_event :: "ui_event \<Rightarrow> mutation_status \<Rightarrow> mutation_status \<times> app_state \<Rightarrow> mutation_status \<times> app_state" where
  "handle_event ev other_ms s =
     (case ev of
        SubmitForm newItemName \<Rightarrow> Form_handleSubmit newItemName s
      | ChangeCheckbox item \<Rightarrow> change_checkbox item other_ms s
      | ClickDelete item \<Rightarrow> click_delete item other_ms s)"

text \<open>The requests an event adds to those already sent.\<close>

definition requests_of :: "ui_event \<Rightarrow> mutation_status \<Rightarrow> mutation_status \<times> app_state \<Rightarrow> request list" where
  "requests_of ev other_ms s = drop (length (sent (snd s))) (sent (snd (handle_event ev other_ms s)))"

section \<open>Facts about the cache and the error access\<close>

lemma map_of_store_same: "map_of (store key e kvs) key = Some e"
  by (induction kvs) auto

lemma map_of_invalidate:
  "map_of (map (invalidate_entry key) kvs) k =
     map_option (\<lambda>e. if prefix key k then e\<lparr>isInvalidated := True\<rparr> else e) (map_of kvs k)"
  by (induction kvs) (auto simp: invalidate_entry_def)

lemma cached_invalidateQueries:
  "cached (invalidateQueries key st) k =
     map_option (\<lambda>e. if prefix key k then e\<lparr>isInvalidated := True\<rparr> else e) (cached st k)"
  by (simp add: cached_def invalidateQueries_def map_of_invalidate)

lemma cached_data_invalidateQueries:
  "cached_data (invalidateQueries key st) k = cached_data st k"
  by (cases "cached st k") (simp_all add: cached_data_def cached_invalidateQueries)

lemma error_msg_server:
  "response err = Some r \<Longrightarrow> resp_data r = JObject kvs \<Longrightarrow> map_of kvs ''msg'' = Some m \<Longrightarrow>
   error_response_data_msg err = Inr m"
  by (simp add: error_response_data_msg_def)

lemma error_msg_transport:
  "response err = None \<Longrightarrow> error_response_data_msg err = Inl TypeError"
  by (simp add: error_response_data_msg_def)

lemmas run_defs =
  createTask_run_def createTask_settle_def createTask_dispatch_def
  editTask_run_def editTask_settle_def editTask_dispatch_def
  deleteTask_run_def deleteTask_settle_def deleteTask_dispatch_def
  mutate_settle_def mutate_dispatch_def

lemma fetch_failure_view:
  "isError (useFetchTasks (fetchTasks_settle (Inl err) st)) \<and>
   \<not> isLoading (useFetchTasks (fetchTasks_settle (Inl err) st))"
  by (cases "cached st [''tasks'']")
     (simp_all add: useFetchTasks_def useQuery_def fetchTasks_settle_def fetchTasks_queryFn_def
        query_settle_def map_of_store_same cached_def)

lemma map_items_tasks:
  "list_all is_task items \<Longrightarrow> \<exists>es. map_items items = Inr es \<and> length es = length items"
proof (induction items)
  case Nil
  then show ?case by simp
next
  case (Cons x xs)
  then obtain es where es: "map_items xs = Inr es" "length es = length xs" by auto
  from Cons.prems have "is_task x" by simp
  then obtain kvs where "x = JObject kvs" by (cases x) auto
  with es show ?case by simp
qed

lemma is_taskList_payloadD:
  assumes "is_taskList_payload d"
  shows "\<exists>kvs items. d = JObject kvs \<and> map_of kvs ''taskList'' = Some (JArray items) \<and>
           list_all is_task items"
proof (cases d)
  case (JObject kvs)
  show ?thesis
  proof (cases "map_of kvs ''taskList''")
    case None
    with assms JObject show ?thesis by (simp add: is_taskList_payload_def)
  next
    case (Some v)
    with assms JObject show ?thesis by (cases v) (simp_all add: is_taskList_payload_def)
  qed
qed (use assms in \<open>simp_all add: is_taskList_payload_def\<close>)

lemma cached_sent_update: "cached (s\<lparr>sent := x\<rparr>) = cached s"
  by (simp add: cached_def fun_eq_iff)

lemma cached_toasts_update: "cached (s\<lparr>toasts := x\<rparr>) = cached s"
  by (simp add: cached_def fun_eq_iff)

lemma cached_flagged:
  "cached st [''tasks''] = Some e \<Longrightarrow>
   cached (invalidateQueries [''tasks''] st) [''tasks''] = Some (e\<lparr>isInvalidated := True\<rparr>)"
  by (simp add: cached_invalidateQueries)

lemma sent_invalidateQueries: "sent (invalidateQueries key st) = sent st"
  by (simp add: invalidateQueries_def)

lemma toasts_invalidateQueries: "toasts (invalidateQueries key st) = toasts st"
  by (simp add: invalidateQueries_def)

lemma sent_fetchTasks_settle: "sent (fetchTasks_settle rep s) = sent s"
  by (cases rep; cases "cached s [''tasks'']")
     (simp_all add: fetchTasks_settle_def fetchTasks_queryFn_def query_settle_def)

lemma cached_fetchTasks_settle_ok:
  "cached (fetchTasks_settle (Inr r) s) [''tasks''] =
     Some \<lparr>q_status = QSuccess, q_data = resp_data r, isInvalidated = False\<rparr>"
  by (simp add: fetchTasks_settle_def fetchTasks_queryFn_def query_settle_def cached_def
        map_of_store_same)

lemma refetchTasks_flagged:
  assumes "cached s [''tasks''] = Some e" and "isInvalidated e"
  shows "sent (refetchTasks rep s) = sent s @ [\<lparr>verb = GET, path = ''/'', body = None\<rparr>]"
    and "cached (refetchTasks (Inr r) s) [''tasks''] =
           Some \<lparr>q_status = QSuccess, q_data = resp_data r, isInvalidated = False\<rparr>"
  using assms
  by (simp_all add: refetchTasks_def sent_fetchTasks_settle cached_fetchTasks_settle_ok
        fetchTasks_request_def customFetch_get_def)

lemma refetchTasks_unflagged:
  "cached s [''tasks''] = Some e \<Longrightarrow> \<not> isInvalidated e \<Longrightarrow> refetchTasks rep s = s"
  by (simp add: refetchTasks_def)

lemma useFetchTasks_flag:
  "cached s' [''tasks''] = map_option (\<lambda>e. e\<lparr>isInvalidated := True\<rparr>) (cached s [''tasks'']) \<Longrightarrow>
   useFetchTasks s' = useFetchTasks s"
  by (cases "cached s [''tasks'']") (simp_all add: useFetchTasks_def useQuery_def)

lemma createTask_run_resolved:
  "createTask_run t (Inr r) st =
     Done (toast_success (JString task_added)
             (invalidateQueries [''tasks''] (st\<lparr>sent := sent st @ [createTask_mutationFn t]\<rparr>)))"
  by (simp add: run_defs createTask_onSuccess_def)

lemma editTask_run_resolved:
  "editTask_run i b (Inr r) st =
     Done (invalidateQueries [''tasks''] (st\<lparr>sent := sent st @ [editTask_mutationFn i b]\<rparr>))"
  by (simp add: run_defs editTask_onSuccess_def)

lemma deleteTask_run_resolved:
  "deleteTask_run i (Inr r) st =
     Done (invalidateQueries [''tasks''] (st\<lparr>sent := sent st @ [deleteTask_mutationFn i]\<rparr>))"
  by (simp add: run_defs deleteTask_onSuccess_def)

lemma cached_createTask_resolved:
  "cached st [''tasks''] = Some e \<Longrightarrow>
   cached (state_of (createTask_run t (Inr r) st)) [''tasks''] = Some (e\<lparr>isInvalidated := True\<rparr>)"
  by (simp add: createTask_run_resolved toast_success_def cached_toasts_update
        cached_flagged cached_sent_update)

lemma cached_editTask_resolved:
  "cached st [''tasks''] = Some e \<Longrightarrow>
   cached (state_of (editTask_run i b (Inr r) st)) [''tasks''] = Some (e\<lparr>isInvalidated := True\<rparr>)"
  by (simp add: editTask_run_resolved cached_flagged cached_sent_update)

lemma cached_deleteTask_resolved:
  "cached st [''tasks''] = Some e \<Longrightarrow>
   cached (state_of (deleteTask_run i (Inr r) st)) [''tasks''] = Some (e\<lparr>isInvalidated := True\<rparr>)"
  by (simp add: deleteTask_run_resolved cached_flagged cached_sent_update)

lemma sent_createTask_run:
  "sent (state_of (createTask_run t rep st)) =
     sent st @ [\<lparr>verb = POST, path = ''/'', body = Some (JObject [(''title'', JString t)])\<rparr>]"
  by (cases rep; cases "error_response_data_msg (projl rep)")
     (simp_all add: run_defs createTask_onSuccess_def createTask_onError_def
        createTask_mutationFn_def customFetch_post_def
        toast_success_def toast_error_def invalidateQueries_def)

lemma sent_editTask_run:
  "sent (state_of (editTask_run i b rep st)) =
     sent st @ [\<lparr>verb = PATCH, path = ''/'' @ i, body = Some (JObject [(''isDone'', JBool b)])\<rparr>]"
  by (cases rep; cases "error_response_data_msg (projl rep)")
     (simp_all add: run_defs editTask_onSuccess_def editTask_onError_def
        editTask_mutationFn_def customFetch_patch_def toast_error_def invalidateQueries_def)

lemma sent_deleteTask_run:
  "sent (state_of (deleteTask_run i rep st)) =
     sent st @ [\<lparr>verb = DELETE, path = ''/'' @ i, body = None\<rparr>]"
  by (cases rep; cases "error_response_data_msg (projl rep)")
     (simp_all add: run_defs deleteTask_onSuccess_def deleteTask_onError_def
        deleteTask_mutationFn_def customFetch_delete_def toast_error_def invalidateQueries_def)

lemma cached_data_sent_update: "cached_data (s\<lparr>sent := x\<rparr>) = cached_data s"
  by (simp add: cached_data_def cached_sent_update fun_eq_iff)

lemma cached_data_toasts_update: "cached_data (s\<lparr>toasts := x\<rparr>) = cached_data s"
  by (simp add: cached_data_def cached_toasts_update fun_eq_iff)

lemma cached_data_createTask_run:
  "cached_data (state_of (createTask_run t rep st)) k = cached_data st k"
  by (cases rep; cases "error_response_data_msg (projl rep)")
     (simp_all add: run_defs createTask_onSuccess_def createTask_onError_def
        toast_success_def toast_error_def cached_data_sent_update cached_data_toasts_update
        cached_data_invalidateQueries)

lemma cached_data_editTask_run:
  "cached_data (state_of (editTask_run i b rep st)) k = cached_data st k"
  by (cases rep; cases "error_response_data_msg (projl rep)")
     (simp_all add: run_defs editTask_onSuccess_def editTask_onError_def
        toast_error_def cached_data_sent_update cached_data_toasts_update
        cached_data_invalidateQueries)

lemma cached_data_deleteTask_run:
  "cached_data (state_of (deleteTask_run i rep st)) k = cached_data st k"
  by (cases rep; cases "error_response_data_msg (projl rep)")
     (simp_all add: run_defs deleteTask_onSuccess_def deleteTask_onError_def
        toast_error_def cached_data_sent_update cached_data_toasts_update
        cached_data_invalidateQueries)

lemma requests_of_SubmitForm:
  "requests_of (SubmitForm t) other_ms (ms, st) =
     [\<lparr>verb = POST, path = ''/'', body = Some (JObject [(''title'', JString t)])\<rparr>]"
  by (simp add: requests_of_def handle_event_def Form_handleSubmit_def useCreateTask_def
        createTask_dispatch_def mutate_dispatch_def createTask_mutationFn_def customFetch_post_def)

lemma requests_of_ChangeCheckbox:
  "requests_of (ChangeCheckbox item) other_ms (ms, st) =
     [\<lparr>verb = PATCH, path = ''/'' @ task_id item,
       body = Some (JObject [(''isDone'', JBool (\<not> isDone item))])\<rparr>]"
  by (simp add: requests_of_def handle_event_def change_checkbox_def SingleItem_def
        useEditTask_def useDeleteTask_def editTask_dispatch_def mutate_dispatch_def
        editTask_mutationFn_def customFetch_patch_def)

lemma requests_of_ClickDelete:
  "requests_of (ClickDelete item) other_ms (ms, st) =
     (if ms = MLoading then [] else [\<lparr>verb = DELETE, path = ''/'' @ task_id item, body = None\<rparr>])"
  by (simp add: requests_of_def handle_event_def click_delete_def SingleItem_def
        useEditTask_def useDeleteTask_def deleteTask_dispatch_def mutate_dispatch_def
        deleteTask_mutationFn_def customFetch_delete_def)

section \<open>The claims\<close>

text \<open>
  C1. A create that the server rejects with a non-2xx response whose JSON body has a
  \<open>msg\<close> field leaves the cache as it was (nothing invalidated, nothing written), no
  callback throws, and the one toast added is an error toast carrying that \<open>msg\<close>
  unchanged.
\<close>

theorem create_failure_keeps_cache:
  assumes "\<not> (200 \<le> resp_status r \<and> resp_status r < 300)"
    and "resp_data r = JObject kvs"
    and "map_of kvs ''msg'' = Some m"
  shows "thrown (createTask_run t (customFetch_settle (Responded r)) st) = None \<and>
         cache (state_of (createTask_run t (customFetch_settle (Responded r)) st)) = cache st \<and>
         toasts (state_of (createTask_run t (customFetch_settle (Responded r)) st)) =
           toasts st @ [ToastError m]"
proof -
  have rej: "customFetch_settle (Responded r) = Inl \<lparr>response = Some r\<rparr>"
    using assms(1) by (simp add: customFetch_settle_def)
  have msg: "error_response_data_msg \<lparr>response = Some r\<rparr> = Inr m"
    using assms(2,3) by (simp add: error_msg_server)
  show ?thesis
    by (simp add: rej msg run_defs createTask_onError_def toast_error_def)
qed

theorem create_failure_keeps_cache_witness:
  "\<not> (200 \<le> (400::nat) \<and> (400::nat) < 300) \<and>
   cache (state_of (createTask_run ''''
      (customFetch_settle (Responded \<lparr>resp_status = 400,
         resp_data = JObject [(''msg'', JString ''title required'')]\<rparr>))
      \<lparr>cache = [([''tasks''], \<lparr>q_status = QSuccess, q_data = JObject [(''taskList'', JArray [])],
                   isInvalidated = False\<rparr>)], toasts = [], sent = []\<rparr>))
     = [([''tasks''], \<lparr>q_status = QSuccess, q_data = JObject [(''taskList'', JArray [])],
                   isInvalidated = False\<rparr>)] \<and>
   toasts (state_of (createTask_run ''''
      (customFetch_settle (Responded \<lparr>resp_status = 400,
         resp_data = JObject [(''msg'', JString ''title required'')]\<rparr>))
      \<lparr>cache = [([''tasks''], \<lparr>q_status = QSuccess, q_data = JObject [(''taskList'', JArray [])],
                   isInvalidated = False\<rparr>)], toasts = [], sent = []\<rparr>))
     = [ToastError (JString ''title required'')]"
  using create_failure_keeps_cache
    [of "\<lparr>resp_status = 400, resp_data = JObject [(''msg'', JString ''title required'')]\<rparr>"
        "[(''msg'', JString ''title required'')]" "JString ''title required''" "''''"
        "\<lparr>cache = [([''tasks''], \<lparr>q_status = QSuccess, q_data = JObject [(''taskList'', JArray [])],
                   isInvalidated = False\<rparr>)], toasts = [], sent = []\<rparr>"]
  by simp

text \<open>
  C2, as stated, fails. After a delete that succeeded, the list that was cached under
  the key \<open>tasks\<close> is still cached, not discarded, and \<open>Items\<close> still renders the
  deleted task from it.
\<close>

theorem invalidation_keeps_list_counterexample:
  "cached_data (state_of (deleteTask_run ''a2'' (Inr \<lparr>resp_status = 200, resp_data = JNull\<rparr>)
      \<lparr>cache = [([''tasks''],
          \<lparr>q_status = QSuccess,
           q_data = JObject [(''taskList'', JArray
             [JObject [(''id'', JString ''a2''), (''title'', JString ''nap''), (''isDone'', JBool False)]])],
           isInvalidated = False\<rparr>)],
        toasts = [], sent = []\<rparr>)) [''tasks''] =
     Some (JObject [(''taskList'', JArray
             [JObject [(''id'', JString ''a2''), (''title'', JString ''nap''), (''isDone'', JBool False)]])]) \<and>
   Items (state_of (deleteTask_run ''a2'' (Inr \<lparr>resp_status = 200, resp_data = JNull\<rparr>)
      \<lparr>cache = [([''tasks''],
          \<lparr>q_status = QSuccess,
           q_data = JObject [(''taskList'', JArray
             [JObject [(''id'', JString ''a2''), (''title'', JString ''nap''), (''isDone'', JBool False)]])],
           isInvalidated = False\<rparr>)],
        toasts = [], sent = []\<rparr>)) =
     Inr (ItemsDiv [SingleItemEl (JString ''a2'')
       (JObject [(''id'', JString ''a2''), (''title'', JString ''nap''), (''isDone'', JBool False)])])"
  by (simp add: deleteTask_run_resolved invalidateQueries_def invalidate_entry_def cached_data_def
        cached_def Items_def Items_render_def useFetchTasks_def useQuery_def)

text \<open>
  C2, amended. When its request resolves, each of the three mutations flags the entry
  cached under the key \<open>tasks\<close> as invalidated. The cached list is kept, and the
  component reads what it read before, until the library has fetched the list again:
  the flag makes it send one GET of the collection, whose result replaces the cached
  list. An entry that is not flagged is not fetched again. Whatever the reply, no
  mutation changes the data cached under any key.
\<close>

theorem mutation_success_flags_tasks:
  assumes "cached st [''tasks''] = Some e"
  shows "cached (state_of (createTask_run t (Inr r) st)) [''tasks''] = Some (e\<lparr>isInvalidated := True\<rparr>) \<and>
         cached (state_of (editTask_run i b (Inr r) st)) [''tasks''] = Some (e\<lparr>isInvalidated := True\<rparr>) \<and>
         cached (state_of (deleteTask_run i (Inr r) st)) [''tasks''] = Some (e\<lparr>isInvalidated := True\<rparr>) \<and>
         sent (refetchTasks rep' (state_of (createTask_run t (Inr r) st))) =
           sent st @ [\<lparr>verb = POST, path = ''/'', body = Some (JObject [(''title'', JString t)])\<rparr>,
                      \<lparr>verb = GET, path = ''/'', body = None\<rparr>] \<and>
         sent (refetchTasks rep' (state_of (editTask_run i b (Inr r) st))) =
           sent st @ [\<lparr>verb = PATCH, path = ''/'' @ i, body = Some (JObject [(''isDone'', JBool b)])\<rparr>,
                      \<lparr>verb = GET, path = ''/'', body = None\<rparr>] \<and>
         sent (refetchTasks rep' (state_of (deleteTask_run i (Inr r) st))) =
           sent st @ [\<lparr>verb = DELETE, path = ''/'' @ i, body = None\<rparr>,
                      \<lparr>verb = GET, path = ''/'', body = None\<rparr>] \<and>
         cached_data (refetchTasks (Inr r') (state_of (createTask_run t (Inr r) st))) [''tasks''] =
           Some (resp_data r') \<and>
         cached_data (refetchTasks (Inr r') (state_of (editTask_run i b (Inr r) st))) [''tasks''] =
           Some (resp_data r') \<and>
         cached_data (refetchTasks (Inr r') (state_of (deleteTask_run i (Inr r) st))) [''tasks''] =
           Some (resp_data r') \<and>
         cached_data (state_of (createTask_run t rep st)) k = cached_data st k \<and>
         cached_data (state_of (editTask_run i b rep st)) k = cached_data st k \<and>
         cached_data (state_of (deleteTask_run i rep st)) k = cached_data st k \<and>
         useFetchTasks (state_of (createTask_run t (Inr r) st)) = useFetchTasks st \<and>
         useFetchTasks (state_of (editTask_run i b (Inr r) st)) = useFetchTasks st \<and>
         useFetchTasks (state_of (deleteTask_run i (Inr r) st)) = useFetchTasks st \<and>
         (\<not> isInvalidated e \<longrightarrow> refetchTasks rep' st = st)"
proof -
  let ?e = "e\<lparr>isInvalidated := True\<rparr>"
  have fl: "isInvalidated ?e" by simp
  have c: "cached (state_of (createTask_run t (Inr r) st)) [''tasks''] = Some ?e"
    using assms by (rule cached_createTask_resolved)
  have ed: "cached (state_of (editTask_run i b (Inr r) st)) [''tasks''] = Some ?e"
    using assms by (rule cached_editTask_resolved)
  have d: "cached (state_of (deleteTask_run i (Inr r) st)) [''tasks''] = Some ?e"
    using assms by (rule cached_deleteTask_resolved)
  have sc: "sent (refetchTasks rep' (state_of (createTask_run t (Inr r) st))) =
           sent st @ [\<lparr>verb = POST, path = ''/'', body = Some (JObject [(''title'', JString t)])\<rparr>,
                      \<lparr>verb = GET, path = ''/'', body = None\<rparr>]"
    by (simp add: refetchTasks_flagged(1) [OF c fl] sent_createTask_run)
  have se: "sent (refetchTasks rep' (state_of (editTask_run i b (Inr r) st))) =
           sent st @ [\<lparr>verb = PATCH, path = ''/'' @ i, body = Some (JObject [(''isDone'', JBool b)])\<rparr>,
                      \<lparr>verb = GET, path = ''/'', body = None\<rparr>]"
    by (simp add: refetchTasks_flagged(1) [OF ed fl] sent_editTask_run)
  have sd: "sent (refetchTasks rep' (state_of (deleteTask_run i (Inr r) st))) =
           sent st @ [\<lparr>verb = DELETE, path = ''/'' @ i, body = None\<rparr>,
                      \<lparr>verb = GET, path = ''/'', body = None\<rparr>]"
    by (simp add: refetchTasks_flagged(1) [OF d fl] sent_deleteTask_run)
  have rc: "cached_data (refetchTasks (Inr r') (state_of (createTask_run t (Inr r) st))) [''tasks''] =
           Some (resp_data r')"
    by (simp add: cached_data_def refetchTasks_flagged(2) [OF c fl])
  have re: "cached_data (refetchTasks (Inr r') (state_of (editTask_run i b (Inr r) st))) [''tasks''] =
           Some (resp_data r')"
    by (simp add: cached_data_def refetchTasks_flagged(2) [OF ed fl])
  have rd: "cached_data (refetchTasks (Inr r') (state_of (deleteTask_run i (Inr r) st))) [''tasks''] =
           Some (resp_data r')"
    by (simp add: cached_data_def refetchTasks_flagged(2) [OF d fl])
  have uc: "useFetchTasks (state_of (createTask_run t (Inr r) st)) = useFetchTasks st"
    by (rule useFetchTasks_flag) (simp add: c assms)
  have ue: "useFetchTasks (state_of (editTask_run i b (Inr r) st)) = useFetchTasks st"
    by (rule useFetchTasks_flag) (simp add: ed assms)
  have ud: "useFetchTasks (state_of (deleteTask_run i (Inr r) st)) = useFetchTasks st"
    by (rule useFetchTasks_flag) (simp add: d assms)
  have nf: "\<not> isInvalidated e \<longrightarrow> refetchTasks rep' st = st"
    using assms by (simp add: refetchTasks_unflagged)
  from c ed d sc se sd rc re rd uc ue ud nf
    cached_data_createTask_run [of t rep st k] cached_data_editTask_run [of i b rep st k]
    cached_data_deleteTask_run [of i rep st k]
  show ?thesis by simp
qed

theorem mutation_success_flags_tasks_witness:
  "cached \<lparr>cache = [([''tasks''], \<lparr>q_status = QSuccess,
        q_data = JObject [(''taskList'', JArray
          [JObject [(''id'', JString ''a2''), (''title'', JString ''nap''), (''isDone'', JBool False)]])], isInvalidated = False\<rparr>)],
      toasts = [], sent = []\<rparr> [''tasks''] =
     Some \<lparr>q_status = QSuccess, q_data = JObject [(''taskList'', JArray
          [JObject [(''id'', JString ''a2''), (''title'', JString ''nap''), (''isDone'', JBool False)]])],
           isInvalidated = False\<rparr> \<and>
   cached (state_of (deleteTask_run ''a2'' (Inr \<lparr>resp_status = 200, resp_data = JNull\<rparr>)
      \<lparr>cache = [([''tasks''], \<lparr>q_status = QSuccess,
        q_data = JObject [(''taskList'', JArray
          [JObject [(''id'', JString ''a2''), (''title'', JString ''nap''), (''isDone'', JBool False)]])], isInvalidated = False\<rparr>)],
      toasts = [], sent = []\<rparr>)) [''tasks''] =
     Some \<lparr>q_status = QSuccess, q_data = JObject [(''taskList'', JArray
          [JObject [(''id'', JString ''a2''), (''title'', JString ''nap''), (''isDone'', JBool False)]])],
           isInvalidated = True\<rparr> \<and>
   sent (refetchTasks (Inr \<lparr>resp_status = 200, resp_data = JObject [(''taskList'', JArray [])]\<rparr>)
     (state_of (deleteTask_run ''a2'' (Inr \<lparr>resp_status = 200, resp_data = JNull\<rparr>)
      \<lparr>cache = [([''tasks''], \<lparr>q_status = QSuccess,
        q_data = JObject [(''taskList'', JArray
          [JObject [(''id'', JString ''a2''), (''title'', JString ''nap''), (''isDone'', JBool False)]])], isInvalidated = False\<rparr>)],
      toasts = [], sent = []\<rparr>))) =
     [\<lparr>verb = DELETE, path = ''/a2'', body = None\<rparr>, \<lparr>verb = GET, path = ''/'', body = None\<rparr>] \<and>
   cached_data (refetchTasks (Inr \<lparr>resp_status = 200, resp_data = JObject [(''taskList'', JArray [])]\<rparr>)
     (state_of (deleteTask_run ''a2'' (Inr \<lparr>resp_status = 200, resp_data = JNull\<rparr>)
      \<lparr>cache = [([''tasks''], \<lparr>q_status = QSuccess,
        q_data = JObject [(''taskList'', JArray
          [JObject [(''id'', JString ''a2''), (''title'', JString ''nap''), (''isDone'', JBool False)]])], isInvalidated = False\<rparr>)],
      toasts = [], sent = []\<rparr>))) [''tasks''] =
     Some (JObject [(''taskList'', JArray [])]) \<and>
   refetchTasks (Inr \<lparr>resp_status = 200, resp_data = JObject [(''taskList'', JArray [])]\<rparr>)
      \<lparr>cache = [([''tasks''], \<lparr>q_status = QSuccess,
        q_data = JObject [(''taskList'', JArray
          [JObject [(''id'', JString ''a2''), (''title'', JString ''nap''), (''isDone'', JBool False)]])], isInvalidated = False\<rparr>)],
      toasts = [], sent = []\<rparr> =
      \<lparr>cache = [([''tasks''], \<lparr>q_status = QSuccess,
        q_data = JObject [(''taskList'', JArray
          [JObject [(''id'', JString ''a2''), (''title'', JString ''nap''), (''isDone'', JBool False)]])], isInvalidated = False\<rparr>)],
      toasts = [], sent = []\<rparr>"
  using mutation_success_flags_tasks
    [where st = "\<lparr>cache = [([''tasks''], \<lparr>q_status = QSuccess,
        q_data = JObject [(''taskList'', JArray
          [JObject [(''id'', JString ''a2''), (''title'', JString ''nap''), (''isDone'', JBool False)]])], isInvalidated = False\<rparr>)],
      toasts = [], sent = []\<rparr>"
     and e = "\<lparr>q_status = QSuccess, q_data = JObject [(''taskList'', JArray
          [JObject [(''id'', JString ''a2''), (''title'', JString ''nap''), (''isDone'', JBool False)]])],
           isInvalidated = False\<rparr>"
     and i = "''a2''" and r = "\<lparr>resp_status = 200, resp_data = JNull\<rparr>"
     and rep' = "Inr \<lparr>resp_status = 200, resp_data = JObject [(''taskList'', JArray [])]\<rparr>"
     and r' = "\<lparr>resp_status = 200, resp_data = JObject [(''taskList'', JArray [])]\<rparr>"]
  by (simp add: cached_def)

text \<open>
  C3, as stated, fails. A list request that the server rejects with status 500 and the
  body \<open>{ msg: "server down" }\<close> makes \<open>Items\<close> render its fixed error paragraph, which is
  not the server's \<open>msg\<close>, and no toast is shown. A create whose request got no response at
  all throws in its error callback and shows no toast either.
\<close>

theorem list_failure_shows_fixed_text_counterexample:
  "Items (fetchTasks_settle
     (customFetch_settle (Responded \<lparr>resp_status = 500, resp_data = JObject [(''msg'', JString ''server down'')]\<rparr>))
     \<lparr>cache = [], toasts = [], sent = []\<rparr>) = Inr (P items_error_text) \<and>
   items_error_text \<noteq> ''server down'' \<and>
   toasts (fetchTasks_settle
     (customFetch_settle (Responded \<lparr>resp_status = 500, resp_data = JObject [(''msg'', JString ''server down'')]\<rparr>))
     \<lparr>cache = [], toasts = [], sent = []\<rparr>) = [] \<and>
   createTask_run ''buy milk'' (customFetch_settle NoResponse) \<lparr>cache = [], toasts = [], sent = []\<rparr> =
     Threw TypeError
       \<lparr>cache = [], toasts = [],
        sent = [\<lparr>verb = POST, path = ''/'', body = Some (JObject [(''title'', JString ''buy milk'')])\<rparr>]\<rparr>"
  by (simp add: Items_def Items_render_def useFetchTasks_def useQuery_def fetchTasks_settle_def
        fetchTasks_queryFn_def query_settle_def cached_def customFetch_settle_def
        items_error_text_def run_defs createTask_onError_def error_response_data_msg_def
        createTask_mutationFn_def customFetch_post_def)

text \<open>
  C3, amended. For create, update and delete, a failure that carries a server response
  whose JSON body has a \<open>msg\<close> field adds one error toast carrying that \<open>msg\<close> unchanged,
  and no callback throws. A failure of the list operation makes \<open>Items\<close> render its fixed
  error paragraph, whatever the error carries, and adds no toast.
\<close>

theorem failures_surfaced:
  "(response err = Some r \<and> resp_data r = JObject kvs \<and> map_of kvs ''msg'' = Some m \<longrightarrow>
      createTask_run t (Inl err) st =
        Done (st\<lparr>toasts := toasts st @ [ToastError m], sent := sent st @ [createTask_mutationFn t]\<rparr>) \<and>
      editTask_run i b (Inl err) st =
        Done (st\<lparr>toasts := toasts st @ [ToastError m], sent := sent st @ [editTask_mutationFn i b]\<rparr>) \<and>
      deleteTask_run i (Inl err) st =
        Done (st\<lparr>toasts := toasts st @ [ToastError m], sent := sent st @ [deleteTask_mutationFn i]\<rparr>)) \<and>
   Items (fetchTasks_settle (Inl err') st) = Inr (P items_error_text) \<and>
   toasts (fetchTasks_settle (Inl err') st) = toasts st"
proof -
  have a: "response err = Some r \<and> resp_data r = JObject kvs \<and> map_of kvs ''msg'' = Some m \<longrightarrow>
      createTask_run t (Inl err) st =
        Done (st\<lparr>toasts := toasts st @ [ToastError m], sent := sent st @ [createTask_mutationFn t]\<rparr>) \<and>
      editTask_run i b (Inl err) st =
        Done (st\<lparr>toasts := toasts st @ [ToastError m], sent := sent st @ [editTask_mutationFn i b]\<rparr>) \<and>
      deleteTask_run i (Inl err) st =
        Done (st\<lparr>toasts := toasts st @ [ToastError m], sent := sent st @ [deleteTask_mutationFn i]\<rparr>)"
    by (auto simp: run_defs createTask_onError_def editTask_onError_def deleteTask_onError_def
          toast_error_def error_msg_server)
  have b: "Items (fetchTasks_settle (Inl err') st) = Inr (P items_error_text)"
    using fetch_failure_view [of err' st] by (simp add: Items_def Items_render_def)
  have c: "toasts (fetchTasks_settle (Inl err') st) = toasts st"
    by (cases "cached st [''tasks'']")
       (simp_all add: fetchTasks_settle_def fetchTasks_queryFn_def query_settle_def)
  from a b c show ?thesis by blast
qed

theorem failures_surfaced_witness:
  "map_of [(''msg'', JString ''no task'')] ''msg'' = Some (JString ''no task'') \<and>
   deleteTask_run ''a1''
     (Inl \<lparr>response = Some \<lparr>resp_status = 404, resp_data = JObject [(''msg'', JString ''no task'')]\<rparr>\<rparr>)
     \<lparr>cache = [], toasts = [], sent = []\<rparr> =
     Done \<lparr>cache = [], toasts = [ToastError (JString ''no task'')],
           sent = [\<lparr>verb = DELETE, path = ''/a1'', body = None\<rparr>]\<rparr> \<and>
   editTask_run ''a1'' True
     (Inl \<lparr>response = Some \<lparr>resp_status = 404, resp_data = JObject [(''msg'', JString ''no task'')]\<rparr>\<rparr>)
     \<lparr>cache = [], toasts = [], sent = []\<rparr> =
     Done \<lparr>cache = [], toasts = [ToastError (JString ''no task'')],
           sent = [\<lparr>verb = PATCH, path = ''/a1'', body = Some (JObject [(''isDone'', JBool True)])\<rparr>]\<rparr>"
  using failures_surfaced
    [of "\<lparr>response = Some \<lparr>resp_status = 404, resp_data = JObject [(''msg'', JString ''no task'')]\<rparr>\<rparr>"
        "\<lparr>resp_status = 404, resp_data = JObject [(''msg'', JString ''no task'')]\<rparr>"
        "[(''msg'', JString ''no task'')]" "JString ''no task''" "''x''"
        "\<lparr>cache = [], toasts = [], sent = []\<rparr>" "''a1''" True "\<lparr>response = None\<rparr>"]
  by (simp add: editTask_mutationFn_def deleteTask_mutationFn_def customFetch_patch_def
        customFetch_delete_def)

text \<open>
  C4, as stated, fails. What \<open>useEditTask\<close> returns is the same in every status of its
  mutation: neither loading nor error nor result is visible to the caller. What
  \<open>useCreateTask\<close> and \<open>useDeleteTask\<close> return is the same for a failed and for a
  succeeded mutation.
\<close>

theorem hooks_hide_mutation_outcome_counterexample:
  "useEditTask MError = useEditTask MSuccess \<and>
   useEditTask MLoading = useEditTask MIdle \<and>
   useCreateTask MError = useCreateTask MSuccess \<and>
   useDeleteTask MError = useDeleteTask MSuccess"
  by (simp add: useEditTask_def useCreateTask_def useDeleteTask_def)

text \<open>
  C4, amended. \<open>useFetchTasks\<close> hands its caller the loading flag, the error flag and the
  data of the query. \<open>useCreateTask\<close> and \<open>useDeleteTask\<close> hand their caller the loading
  flag of the mutation and nothing that tells a failed mutation from a succeeded or an
  idle one. \<open>useEditTask\<close> hands its caller nothing of the mutation's state.
\<close>

theorem hooks_exposed_state:
  "isLoading (useFetchTasks st) = isLoading (useQuery [''tasks''] st) \<and>
   isError (useFetchTasks st) = isError (useQuery [''tasks''] st) \<and>
   data (useFetchTasks st) = data (useQuery [''tasks''] st) \<and>
   createTaskLoading (useCreateTask ms) = (ms = MLoading) \<and>
   deleteTaskLoading (useDeleteTask ms) = (ms = MLoading) \<and>
   useCreateTask MError = useCreateTask MSuccess \<and>
   useCreateTask MSuccess = useCreateTask MIdle \<and>
   useDeleteTask MError = useDeleteTask MSuccess \<and>
   useDeleteTask MSuccess = useDeleteTask MIdle \<and>
   useEditTask ms = useEditTask ms'"
  by (simp add: useFetchTasks_def Let_def useEditTask_def useCreateTask_def useDeleteTask_def)

text \<open>
  C5, as stated, fails. A create whose request got no response at all sends its POST,
  then throws in the error callback: no message is shown.
\<close>

theorem createTask_no_response_counterexample:
  "createTask_run ''buy milk'' (customFetch_settle NoResponse)
     \<lparr>cache = [([''tasks''], \<lparr>q_status = QSuccess, q_data = JObject [(''taskList'', JArray [])],
                  isInvalidated = False\<rparr>)], toasts = [], sent = []\<rparr> =
     Threw TypeError
       \<lparr>cache = [([''tasks''], \<lparr>q_status = QSuccess, q_data = JObject [(''taskList'', JArray [])],
                  isInvalidated = False\<rparr>)], toasts = [],
        sent = [\<lparr>verb = POST, path = ''/'', body = Some (JObject [(''title'', JString ''buy milk'')])\<rparr>]\<rparr> \<and>
   toasts (state_of (createTask_run ''buy milk'' (customFetch_settle NoResponse)
     \<lparr>cache = [([''tasks''], \<lparr>q_status = QSuccess, q_data = JObject [(''taskList'', JArray [])],
                  isInvalidated = False\<rparr>)], toasts = [], sent = []\<rparr>)) = []"
  by (simp add: customFetch_settle_def run_defs createTask_onError_def error_response_data_msg_def
        createTask_mutationFn_def customFetch_post_def)

text \<open>
  C5, amended. For every title and every reply, a create sends exactly one request, a
  POST to \<open>/\<close> with the body \<open>{ title }\<close>. When the request resolves, a success toast is
  added, nothing is thrown, and the entry cached under the key \<open>tasks\<close> is flagged as
  invalidated, so that the library sends one GET to fetch the list again. When the
  request is rejected with a server response whose JSON body has a \<open>msg\<close> field, an error
  toast carrying that \<open>msg\<close> is added and nothing else changes.
\<close>

theorem createTask_posts_title:
  "sent (state_of (createTask_run t rep st)) =
     sent st @ [\<lparr>verb = POST, path = ''/'', body = Some (JObject [(''title'', JString t)])\<rparr>] \<and>
   thrown (createTask_run t (Inr r) st) = None \<and>
   toasts (state_of (createTask_run t (Inr r) st)) = toasts st @ [ToastSuccess (JString task_added)] \<and>
   (cached st [''tasks''] = Some e \<longrightarrow>
      cached (state_of (createTask_run t (Inr r) st)) [''tasks''] = Some (e\<lparr>isInvalidated := True\<rparr>) \<and>
      sent (refetchTasks rep' (state_of (createTask_run t (Inr r) st))) =
        sent st @ [\<lparr>verb = POST, path = ''/'', body = Some (JObject [(''title'', JString t)])\<rparr>,
                   \<lparr>verb = GET, path = ''/'', body = None\<rparr>]) \<and>
   (response err = Some r' \<and> resp_data r' = JObject kvs \<and> map_of kvs ''msg'' = Some m \<longrightarrow>
      createTask_run t (Inl err) st =
        Done (st\<lparr>toasts := toasts st @ [ToastError m],
                 sent := sent st @
                   [\<lparr>verb = POST, path = ''/'', body = Some (JObject [(''title'', JString t)])\<rparr>]\<rparr>))"
proof -
  have b: "thrown (createTask_run t (Inr r) st) = None"
    by (simp add: createTask_run_resolved)
  have c: "toasts (state_of (createTask_run t (Inr r) st)) =
      toasts st @ [ToastSuccess (JString task_added)]"
    by (simp add: createTask_run_resolved toast_success_def toasts_invalidateQueries)
  have d: "cached st [''tasks''] = Some e \<longrightarrow>
      cached (state_of (createTask_run t (Inr r) st)) [''tasks''] = Some (e\<lparr>isInvalidated := True\<rparr>) \<and>
      sent (refetchTasks rep' (state_of (createTask_run t (Inr r) st))) =
        sent st @ [\<lparr>verb = POST, path = ''/'', body = Some (JObject [(''title'', JString t)])\<rparr>,
                   \<lparr>verb = GET, path = ''/'', body = None\<rparr>]"
  proof
    assume h: "cached st [''tasks''] = Some e"
    have fl: "isInvalidated (e\<lparr>isInvalidated := True\<rparr>)" by simp
    note c1 = cached_createTask_resolved [OF h, of t r]
    show "cached (state_of (createTask_run t (Inr r) st)) [''tasks''] = Some (e\<lparr>isInvalidated := True\<rparr>) \<and>
      sent (refetchTasks rep' (state_of (createTask_run t (Inr r) st))) =
        sent st @ [\<lparr>verb = POST, path = ''/'', body = Some (JObject [(''title'', JString t)])\<rparr>,
                   \<lparr>verb = GET, path = ''/'', body = None\<rparr>]"
      by (simp add: c1 refetchTasks_flagged(1) [OF c1 fl] sent_createTask_run)
  qed
  have f: "response err = Some r' \<and> resp_data r' = JObject kvs \<and> map_of kvs ''msg'' = Some m \<longrightarrow>
      createTask_run t (Inl err) st =
        Done (st\<lparr>toasts := toasts st @ [ToastError m],
                 sent := sent st @
                   [\<lparr>verb = POST, path = ''/'', body = Some (JObject [(''title'', JString t)])\<rparr>]\<rparr>)"
    by (auto simp: run_defs createTask_onError_def createTask_mutationFn_def
          customFetch_post_def toast_error_def error_msg_server)
  from sent_createTask_run [of t rep st] b c d f show ?thesis by blast
qed

theorem createTask_posts_title_witness:
  "cached \<lparr>cache = [([''tasks''], \<lparr>q_status = QSuccess, q_data = JObject [(''taskList'', JArray [])],
                   isInvalidated = False\<rparr>)], toasts = [], sent = []\<rparr> [''tasks''] =
     Some \<lparr>q_status = QSuccess, q_data = JObject [(''taskList'', JArray [])], isInvalidated = False\<rparr> \<and>
   map_of [(''msg'', JString ''title required'')] ''msg'' = Some (JString ''title required'') \<and>
   cached (state_of (createTask_run ''buy milk'' (Inr \<lparr>resp_status = 201, resp_data = JNull\<rparr>)
     \<lparr>cache = [([''tasks''], \<lparr>q_status = QSuccess, q_data = JObject [(''taskList'', JArray [])],
                   isInvalidated = False\<rparr>)], toasts = [], sent = []\<rparr>)) [''tasks''] =
     Some \<lparr>q_status = QSuccess, q_data = JObject [(''taskList'', JArray [])], isInvalidated = True\<rparr> \<and>
   toasts (state_of (createTask_run ''buy milk'' (Inr \<lparr>resp_status = 201, resp_data = JNull\<rparr>)
     \<lparr>cache = [([''tasks''], \<lparr>q_status = QSuccess, q_data = JObject [(''taskList'', JArray [])],
                   isInvalidated = False\<rparr>)], toasts = [], sent = []\<rparr>)) =
     [ToastSuccess (JString task_added)] \<and>
   sent (refetchTasks (Inl \<lparr>response = None\<rparr>)
     (state_of (createTask_run ''buy milk'' (Inr \<lparr>resp_status = 201, resp_data = JNull\<rparr>)
     \<lparr>cache = [([''tasks''], \<lparr>q_status = QSuccess, q_data = JObject [(''taskList'', JArray [])],
                   isInvalidated = False\<rparr>)], toasts = [], sent = []\<rparr>))) =
     [\<lparr>verb = POST, path = ''/'', body = Some (JObject [(''title'', JString ''buy milk'')])\<rparr>,
      \<lparr>verb = GET, path = ''/'', body = None\<rparr>] \<and>
   createTask_run ''buy milk''
     (Inl \<lparr>response = Some \<lparr>resp_status = 400, resp_data = JObject [(''msg'', JString ''title required'')]\<rparr>\<rparr>)
     \<lparr>cache = [([''tasks''], \<lparr>q_status = QSuccess, q_data = JObject [(''taskList'', JArray [])],
                   isInvalidated = False\<rparr>)], toasts = [], sent = []\<rparr> =
   Done \<lparr>cache = [([''tasks''], \<lparr>q_status = QSuccess, q_data = JObject [(''taskList'', JArray [])],
                   isInvalidated = False\<rparr>)],
         toasts = [ToastError (JString ''title required'')],
         sent = [\<lparr>verb = POST, path = ''/'', body = Some (JObject [(''title'', JString ''buy milk'')])\<rparr>]\<rparr>"
  using createTask_posts_title
    [where t = "''buy milk''" and r = "\<lparr>resp_status = 201, resp_data = JNull\<rparr>"
     and st = "\<lparr>cache = [([''tasks''], \<lparr>q_status = QSuccess, q_data = JObject [(''taskList'', JArray [])],
                   isInvalidated = False\<rparr>)], toasts = [], sent = []\<rparr>"
     and e = "\<lparr>q_status = QSuccess, q_data = JObject [(''taskList'', JArray [])], isInvalidated = False\<rparr>"
     and rep' = "Inl \<lparr>response = None\<rparr>"
     and err = "\<lparr>response = Some \<lparr>resp_status = 400, resp_data = JObject [(''msg'', JString ''title required'')]\<rparr>\<rparr>"
     and r' = "\<lparr>resp_status = 400, resp_data = JObject [(''msg'', JString ''title required'')]\<rparr>"
     and kvs = "[(''msg'', JString ''title required'')]" and m = "JString ''title required''"]
  by (simp add: cached_def)

text \<open>
  C6. For every task identifier and boolean, an update sends exactly one request, a
  PATCH to \<open>/\<close> followed by the identifier, with the body \<open>{ isDone }\<close> and nothing else in
  it. When the request resolves, the entry cached under the key \<open>tasks\<close> is flagged as
  invalidated, so that the library sends one GET to fetch the list again, and no toast
  is added. The checkbox of an item sends the update for the item's own identifier
  with the negation of the item's current \<open>isDone\<close>; and of all the events of the
  interface, a PATCH is sent by none but the checkbox, always with that negation.
\<close>

theorem editTask_patches_isDone:
  "sent (state_of (editTask_run i b rep st)) =
     sent st @ [\<lparr>verb = PATCH, path = ''/'' @ i, body = Some (JObject [(''isDone'', JBool b)])\<rparr>] \<and>
   thrown (editTask_run i b (Inr r) st) = None \<and>
   toasts (state_of (editTask_run i b (Inr r) st)) = toasts st \<and>
   (cached st [''tasks''] = Some e \<longrightarrow>
      cached (state_of (editTask_run i b (Inr r) st)) [''tasks''] = Some (e\<lparr>isInvalidated := True\<rparr>) \<and>
      sent (refetchTasks rep' (state_of (editTask_run i b (Inr r) st))) =
        sent st @ [\<lparr>verb = PATCH, path = ''/'' @ i, body = Some (JObject [(''isDone'', JBool b)])\<rparr>,
                   \<lparr>verb = GET, path = ''/'', body = None\<rparr>]) \<and>
   handle_event (ChangeCheckbox item) other_ms (ms, st) =
     (MLoading,
      st\<lparr>sent := sent st @
        [\<lparr>verb = PATCH, path = ''/'' @ task_id item,
          body = Some (JObject [(''isDone'', JBool (\<not> isDone item))])\<rparr>]\<rparr>) \<and>
   (req \<in> set (requests_of ev other_ms (ms, st)) \<and> verb req = PATCH \<longrightarrow>
      (\<exists>it. ev = ChangeCheckbox it \<and>
            req = \<lparr>verb = PATCH, path = ''/'' @ task_id it,
                   body = Some (JObject [(''isDone'', JBool (\<not> isDone it))])\<rparr>))"
proof -
  have b: "thrown (editTask_run i b (Inr r) st) = None"
    by (simp add: editTask_run_resolved)
  have c: "toasts (state_of (editTask_run i b (Inr r) st)) = toasts st"
    by (simp add: editTask_run_resolved toasts_invalidateQueries)
  have d: "cached st [''tasks''] = Some e \<longrightarrow>
      cached (state_of (editTask_run i b (Inr r) st)) [''tasks''] = Some (e\<lparr>isInvalidated := True\<rparr>) \<and>
      sent (refetchTasks rep' (state_of (editTask_run i b (Inr r) st))) =
        sent st @ [\<lparr>verb = PATCH, path = ''/'' @ i, body = Some (JObject [(''isDone'', JBool b)])\<rparr>,
                   \<lparr>verb = GET, path = ''/'', body = None\<rparr>]"
  proof
    assume h: "cached st [''tasks''] = Some e"
    have fl: "isInvalidated (e\<lparr>isInvalidated := True\<rparr>)" by simp
    note c1 = cached_editTask_resolved [OF h, of i b r]
    show "cached (state_of (editTask_run i b (Inr r) st)) [''tasks''] = Some (e\<lparr>isInvalidated := True\<rparr>) \<and>
      sent (refetchTasks rep' (state_of (editTask_run i b (Inr r) st))) =
        sent st @ [\<lparr>verb = PATCH, path = ''/'' @ i, body = Some (JObject [(''isDone'', JBool b)])\<rparr>,
                   \<lparr>verb = GET, path = ''/'', body = None\<rparr>]"
      by (simp add: c1 refetchTasks_flagged(1) [OF c1 fl] sent_editTask_run)
  qed
  have f: "handle_event (ChangeCheckbox item) other_ms (ms, st) =
     (MLoading,
      st\<lparr>sent := sent st @
        [\<lparr>verb = PATCH, path = ''/'' @ task_id item,
          body = Some (JObject [(''isDone'', JBool (\<not> isDone item))])\<rparr>]\<rparr>)"
    by (simp add: handle_event_def change_checkbox_def SingleItem_def useEditTask_def
          useDeleteTask_def editTask_dispatch_def mutate_dispatch_def editTask_mutationFn_def
          customFetch_patch_def)
  have g: "req \<in> set (requests_of ev other_ms (ms, st)) \<and> verb req = PATCH \<longrightarrow>
      (\<exists>it. ev = ChangeCheckbox it \<and>
            req = \<lparr>verb = PATCH, path = ''/'' @ task_id it,
                   body = Some (JObject [(''isDone'', JBool (\<not> isDone it))])\<rparr>)"
  proof (cases ev)
    case (SubmitForm t)
    then show ?thesis by (auto simp: requests_of_SubmitForm)
  next
    case (ChangeCheckbox it)
    then show ?thesis by (auto simp: requests_of_ChangeCheckbox)
  next
    case (ClickDelete it)
    then show ?thesis by (auto simp: requests_of_ClickDelete)
  qed
  from sent_editTask_run [of i b rep st] b c d f g show ?thesis by blast
qed

theorem editTask_patches_isDone_witness:
  "cached \<lparr>cache = [([''tasks''], \<lparr>q_status = QSuccess, q_data = JObject [(''taskList'', JArray [])],
                   isInvalidated = False\<rparr>)], toasts = [], sent = []\<rparr> [''tasks''] =
     Some \<lparr>q_status = QSuccess, q_data = JObject [(''taskList'', JArray [])], isInvalidated = False\<rparr> \<and>
   cached (state_of (editTask_run ''a1'' True (Inr \<lparr>resp_status = 200, resp_data = JNull\<rparr>)
     \<lparr>cache = [([''tasks''], \<lparr>q_status = QSuccess, q_data = JObject [(''taskList'', JArray [])],
                   isInvalidated = False\<rparr>)], toasts = [], sent = []\<rparr>)) [''tasks''] =
     Some \<lparr>q_status = QSuccess, q_data = JObject [(''taskList'', JArray [])], isInvalidated = True\<rparr> \<and>
   sent (refetchTasks (Inl \<lparr>response = None\<rparr>)
     (state_of (editTask_run ''a1'' True (Inr \<lparr>resp_status = 200, resp_data = JNull\<rparr>)
     \<lparr>cache = [([''tasks''], \<lparr>q_status = QSuccess, q_data = JObject [(''taskList'', JArray [])],
                   isInvalidated = False\<rparr>)], toasts = [], sent = []\<rparr>))) =
     [\<lparr>verb = PATCH, path = ''/a1'', body = Some (JObject [(''isDone'', JBool True)])\<rparr>,
      \<lparr>verb = GET, path = ''/'', body = None\<rparr>] \<and>
   \<lparr>verb = PATCH, path = ''/a1'', body = Some (JObject [(''isDone'', JBool True)])\<rparr>
     \<in> set (requests_of (ChangeCheckbox \<lparr>task_id = ''a1'', title = ''walk the dog'', isDone = False\<rparr>) MIdle
         (MIdle, \<lparr>cache = [([''tasks''], \<lparr>q_status = QSuccess, q_data = JObject [(''taskList'', JArray [])],
                   isInvalidated = False\<rparr>)], toasts = [], sent = []\<rparr>)) \<and>
   handle_event (ChangeCheckbox \<lparr>task_id = ''a1'', title = ''walk the dog'', isDone = False\<rparr>) MIdle
     (MIdle, \<lparr>cache = [([''tasks''], \<lparr>q_status = QSuccess, q_data = JObject [(''taskList'', JArray [])],
                   isInvalidated = False\<rparr>)], toasts = [], sent = []\<rparr>) =
     (MLoading, \<lparr>cache = [([''tasks''], \<lparr>q_status = QSuccess, q_data = JObject [(''taskList'', JArray [])],
                   isInvalidated = False\<rparr>)], toasts = [],
        sent = [\<lparr>verb = PATCH, path = ''/a1'', body = Some (JObject [(''isDone'', JBool True)])\<rparr>]\<rparr>)"
  using editTask_patches_isDone
    [where i = "''a1''" and b = True and r = "\<lparr>resp_status = 200, resp_data = JNull\<rparr>"
     and st = "\<lparr>cache = [([''tasks''], \<lparr>q_status = QSuccess, q_data = JObject [(''taskList'', JArray [])],
                   isInvalidated = False\<rparr>)], toasts = [], sent = []\<rparr>"
     and e = "\<lparr>q_status = QSuccess, q_data = JObject [(''taskList'', JArray [])], isInvalidated = False\<rparr>"
     and rep' = "Inl \<lparr>response = None\<rparr>"
     and item = "\<lparr>task_id = ''a1'', title = ''walk the dog'', isDone = False\<rparr>"
     and other_ms = MIdle and ms = MIdle
     and ev = "ChangeCheckbox \<lparr>task_id = ''a1'', title = ''walk the dog'', isDone = False\<rparr>"
     and req = "\<lparr>verb = PATCH, path = ''/a1'', body = Some (JObject [(''isDone'', JBool True)])\<rparr>"]
  by (simp add: cached_def requests_of_ChangeCheckbox)

text \<open>
  C7. When the list request resolves with a 2xx response whose body has an empty
  \<open>taskList\<close>, \<open>Items\<close> renders the list container with no child, and the query is neither
  in the error state nor loading.
\<close>

theorem empty_list_is_ready:
  assumes "200 \<le> resp_status r" and "resp_status r < 300"
    and "resp_data r = JObject kvs" and "map_of kvs ''taskList'' = Some (JArray [])"
  shows "Items (fetchTasks_settle (customFetch_settle (Responded r)) st) = Inr (ItemsDiv []) \<and>
         \<not> isError (useFetchTasks (fetchTasks_settle (customFetch_settle (Responded r)) st)) \<and>
         \<not> isLoading (useFetchTasks (fetchTasks_settle (customFetch_settle (Responded r)) st))"
proof -
  have ok: "customFetch_settle (Responded r) = Inr r"
    using assms(1,2) by (simp add: customFetch_settle_def)
  have view: "useFetchTasks (fetchTasks_settle (Inr r) st) =
      \<lparr>isLoading = False, data = resp_data r, isError = False\<rparr>"
    by (simp add: useFetchTasks_def useQuery_def fetchTasks_settle_def fetchTasks_queryFn_def
          query_settle_def cached_def map_of_store_same)
  show ?thesis
    using assms(3,4) by (simp add: ok view Items_def Items_render_def)
qed

theorem empty_list_is_ready_witness:
  "(200::nat) \<le> 200 \<and> (200::nat) < 300 \<and>
   Items (fetchTasks_settle
     (customFetch_settle (Responded \<lparr>resp_status = 200, resp_data = JObject [(''taskList'', JArray [])]\<rparr>))
     \<lparr>cache = [], toasts = [], sent = []\<rparr>) = Inr (ItemsDiv []) \<and>
   \<not> isError (useFetchTasks (fetchTasks_settle
     (customFetch_settle (Responded \<lparr>resp_status = 200, resp_data = JObject [(''taskList'', JArray [])]\<rparr>))
     \<lparr>cache = [], toasts = [], sent = []\<rparr>))"
  using empty_list_is_ready
    [of "\<lparr>resp_status = 200, resp_data = JObject [(''taskList'', JArray [])]\<rparr>"
        "[(''taskList'', JArray [])]" "\<lparr>cache = [], toasts = [], sent = []\<rparr>"]
  by simp

text \<open>
  C8. Each of the three error callbacks reads \<open>error.response.data.msg\<close> with no check.
  When the error carries a server response whose JSON body has a \<open>msg\<close> field, the read
  is defined and the callback shows that \<open>msg\<close> in an error toast. When the error carries
  no response, the read throws a TypeError and no toast is shown.
\<close>

theorem onError_reads_msg_unguarded:
  "(response err = Some r \<and> resp_data r = JObject kvs \<and> map_of kvs ''msg'' = Some m \<longrightarrow>
      createTask_onError err st = Done (st\<lparr>toasts := toasts st @ [ToastError m]\<rparr>) \<and>
      editTask_onError err st = Done (st\<lparr>toasts := toasts st @ [ToastError m]\<rparr>) \<and>
      deleteTask_onError err st = Done (st\<lparr>toasts := toasts st @ [ToastError m]\<rparr>)) \<and>
   (response err' = None \<longrightarrow>
      createTask_onError err' st = Threw TypeError st \<and>
      editTask_onError err' st = Threw TypeError st \<and>
      deleteTask_onError err' st = Threw TypeError st)"
  by (simp add: createTask_onError_def editTask_onError_def deleteTask_onError_def
        error_response_data_msg_def toast_error_def)

theorem onError_reads_msg_unguarded_witness:
  "createTask_onError
     \<lparr>response = Some \<lparr>resp_status = 404, resp_data = JObject [(''msg'', JString ''no task'')]\<rparr>\<rparr>
     \<lparr>cache = [], toasts = [], sent = []\<rparr> =
     Done \<lparr>cache = [], toasts = [ToastError (JString ''no task'')], sent = []\<rparr> \<and>
   editTask_onError
     \<lparr>response = Some \<lparr>resp_status = 404, resp_data = JObject [(''msg'', JString ''no task'')]\<rparr>\<rparr>
     \<lparr>cache = [], toasts = [], sent = []\<rparr> =
     Done \<lparr>cache = [], toasts = [ToastError (JString ''no task'')], sent = []\<rparr> \<and>
   deleteTask_onError
     \<lparr>response = Some \<lparr>resp_status = 404, resp_data = JObject [(''msg'', JString ''no task'')]\<rparr>\<rparr>
     \<lparr>cache = [], toasts = [], sent = []\<rparr> =
     Done \<lparr>cache = [], toasts = [ToastError (JString ''no task'')], sent = []\<rparr> \<and>
   createTask_onError \<lparr>response = None\<rparr> \<lparr>cache = [], toasts = [], sent = []\<rparr> =
     Threw TypeError \<lparr>cache = [], toasts = [], sent = []\<rparr> \<and>
   editTask_onError \<lparr>response = None\<rparr> \<lparr>cache = [], toasts = [], sent = []\<rparr> =
     Threw TypeError \<lparr>cache = [], toasts = [], sent = []\<rparr> \<and>
   deleteTask_onError \<lparr>response = None\<rparr> \<lparr>cache = [], toasts = [], sent = []\<rparr> =
     Threw TypeError \<lparr>cache = [], toasts = [], sent = []\<rparr>"
  using onError_reads_msg_unguarded
    [of "\<lparr>response = Some \<lparr>resp_status = 404, resp_data = JObject [(''msg'', JString ''no task'')]\<rparr>\<rparr>"
        "\<lparr>resp_status = 404, resp_data = JObject [(''msg'', JString ''no task'')]\<rparr>"
        "[(''msg'', JString ''no task'')]" "JString ''no task''"
        "\<lparr>cache = [], toasts = [], sent = []\<rparr>" "\<lparr>response = None\<rparr>"]
  by simp

text \<open>
  C9. While the delete mutation of a list item is loading, the item's delete button is
  disabled and a click on it changes nothing: no request is sent. From any other
  status a click sends one DELETE for the item and puts the mutation in the loading
  status, so that a second click sends nothing more. Once the mutation has settled the
  button is enabled again.
\<close>

theorem delete_button_disabled_while_loading:
  "(deleteTaskLoading (useDeleteTask delete_ms) \<longrightarrow>
      disabled (SingleItem item delete_ms edit_ms) \<and>
      click_delete item edit_ms (delete_ms, st) = (delete_ms, st)) \<and>
   (\<not> deleteTaskLoading (useDeleteTask delete_ms') \<longrightarrow>
      click_delete item edit_ms (delete_ms', st) =
        (MLoading, st\<lparr>sent := sent st @ [\<lparr>verb = DELETE, path = ''/'' @ task_id item, body = None\<rparr>]\<rparr>) \<and>
      click_delete item edit_ms (click_delete item edit_ms (delete_ms', st)) =
        click_delete item edit_ms (delete_ms', st)) \<and>
   \<not> disabled (SingleItem item (fst (deleteTask_settle rep s)) edit_ms)"
proof -
  have a: "deleteTaskLoading (useDeleteTask delete_ms) \<longrightarrow>
      disabled (SingleItem item delete_ms edit_ms) \<and>
      click_delete item edit_ms (delete_ms, st) = (delete_ms, st)"
    by (simp add: click_delete_def SingleItem_def useDeleteTask_def useEditTask_def)
  have b: "\<not> deleteTaskLoading (useDeleteTask delete_ms') \<longrightarrow>
      click_delete item edit_ms (delete_ms', st) =
        (MLoading, st\<lparr>sent := sent st @ [\<lparr>verb = DELETE, path = ''/'' @ task_id item, body = None\<rparr>]\<rparr>) \<and>
      click_delete item edit_ms (click_delete item edit_ms (delete_ms', st)) =
        click_delete item edit_ms (delete_ms', st)"
    by (simp add: click_delete_def SingleItem_def useDeleteTask_def useEditTask_def
          deleteTask_dispatch_def mutate_dispatch_def deleteTask_mutationFn_def
          customFetch_delete_def)
  have c: "\<not> disabled (SingleItem item (fst (deleteTask_settle rep s)) edit_ms)"
    by (cases rep)
       (simp_all add: SingleItem_def useDeleteTask_def useEditTask_def deleteTask_settle_def
          mutate_settle_def)
  from a b c show ?thesis by blast
qed

theorem delete_button_disabled_while_loading_witness:
  "deleteTaskLoading (useDeleteTask MLoading) \<and>
   \<not> deleteTaskLoading (useDeleteTask MIdle) \<and>
   click_delete \<lparr>task_id = ''a1'', title = ''walk the dog'', isDone = False\<rparr> MIdle
     (MLoading, \<lparr>cache = [], toasts = [],
        sent = [\<lparr>verb = DELETE, path = ''/a1'', body = None\<rparr>]\<rparr>) =
     (MLoading, \<lparr>cache = [], toasts = [],
        sent = [\<lparr>verb = DELETE, path = ''/a1'', body = None\<rparr>]\<rparr>) \<and>
   click_delete \<lparr>task_id = ''a1'', title = ''walk the dog'', isDone = False\<rparr> MIdle
     (MIdle, \<lparr>cache = [], toasts = [],
        sent = [\<lparr>verb = DELETE, path = ''/a1'', body = None\<rparr>]\<rparr>) =
     (MLoading, \<lparr>cache = [], toasts = [],
        sent = [\<lparr>verb = DELETE, path = ''/a1'', body = None\<rparr>,
                \<lparr>verb = DELETE, path = ''/a1'', body = None\<rparr>]\<rparr>)"
  using delete_button_disabled_while_loading
    [of MLoading "\<lparr>task_id = ''a1'', title = ''walk the dog'', isDone = False\<rparr>" MIdle
        "\<lparr>cache = [], toasts = [], sent = [\<lparr>verb = DELETE, path = ''/a1'', body = None\<rparr>]\<rparr>"
        MIdle]
  by (simp add: useDeleteTask_def)

text \<open>
  C10. While the query is loading or in error, \<open>Items\<close> returns one of its two
  paragraphs, and what it returns does not depend on \<open>data\<close>. In the ready state, when
  \<open>data\<close> has the shape \<open>{ taskList: Task[] }\<close>, reading \<open>data.taskList\<close> and mapping over it
  throws nothing: \<open>Items\<close> renders the list container with one child for each task.
\<close>

theorem Items_touches_data_only_when_ready:
  "(isLoading r \<or> isError r \<longrightarrow>
      Items_render (r\<lparr>data := d\<rparr>) = Items_render r \<and>
      (Items_render r = Inr (P ''Loading...'') \<or> Items_render r = Inr (P items_error_text))) \<and>
   (\<not> isLoading r' \<and> \<not> isError r' \<and> is_taskList_payload (data r') \<longrightarrow>
      (\<exists>items es. get_prop (data r') ''taskList'' = Inr (JArray items) \<and>
                  Items_render r' = Inr (ItemsDiv es) \<and> length es = length items))"
proof -
  have a: "isLoading r \<or> isError r \<longrightarrow>
      Items_render (r\<lparr>data := d\<rparr>) = Items_render r \<and>
      (Items_render r = Inr (P ''Loading...'') \<or> Items_render r = Inr (P items_error_text))"
    by (auto simp: Items_render_def)
  have b: "\<not> isLoading r' \<and> \<not> isError r' \<and> is_taskList_payload (data r') \<longrightarrow>
      (\<exists>items es. get_prop (data r') ''taskList'' = Inr (JArray items) \<and>
                  Items_render r' = Inr (ItemsDiv es) \<and> length es = length items)"
  proof
    assume h: "\<not> isLoading r' \<and> \<not> isError r' \<and> is_taskList_payload (data r')"
    then obtain kvs items where d: "data r' = JObject kvs"
        and tl: "map_of kvs ''taskList'' = Some (JArray items)" and ts: "list_all is_task items"
      using is_taskList_payloadD by blast
    from map_items_tasks [OF ts] obtain es where es: "map_items items = Inr es"
        and len: "length es = length items" by blast
    have "get_prop (data r') ''taskList'' = Inr (JArray items)" by (simp add: d tl)
    moreover have "Items_render r' = Inr (ItemsDiv es)"
      using h by (simp add: Items_render_def d tl es)
    ultimately show "\<exists>items es. get_prop (data r') ''taskList'' = Inr (JArray items) \<and>
                  Items_render r' = Inr (ItemsDiv es) \<and> length es = length items"
      using len by blast
  qed
  from a b show ?thesis by blast
qed

theorem Items_touches_data_only_when_ready_witness:
  "Items_render \<lparr>isLoading = True, data = JUndefined, isError = False\<rparr> = Inr (P ''Loading...'') \<and>
   is_taskList_payload (JObject [(''taskList'', JArray
      [JObject [(''id'', JString ''a1''), (''title'', JString ''walk the dog''), (''isDone'', JBool False)]])]) \<and>
   (\<exists>es. Items_render \<lparr>isLoading = False, data = JObject [(''taskList'', JArray
      [JObject [(''id'', JString ''a1''), (''title'', JString ''walk the dog''), (''isDone'', JBool False)]])],
        isError = False\<rparr> = Inr (ItemsDiv es) \<and> length es = 1)"
  using Items_touches_data_only_when_ready
    [of "\<lparr>isLoading = True, data = JUndefined, isError = False\<rparr>" JNull
        "\<lparr>isLoading = False, data = JObject [(''taskList'', JArray
      [JObject [(''id'', JString ''a1''), (''title'', JString ''walk the dog''), (''isDone'', JBool False)]])],
        isError = False\<rparr>"]
  by (simp add: is_taskList_payload_def Items_render_def)

end
